theory Spec2Isabelle
  imports Complex_Main "HOL-Library.Sublist"
begin

section \<open>Python strings\<close>

text \<open>
  Python \<open>str\<close> values are modelled as \<open>string\<close>, one \<open>char\<close> per code point, for
  code points below 256 (ASCII and Latin-1). On that range \<open>str.lower\<close> adds 32 to
  \<open>A..Z\<close> and to the code points 192..222 other than 215, and leaves every other
  code point alone; \<open>str.split()\<close> without argument cuts at runs of the code
  points for which \<open>str.isspace\<close> holds and yields no empty piece.
\<close>

definition py_lower_char :: "char \<Rightarrow> char" where
  "py_lower_char c =
     (let n = (of_char c :: nat)
      in if (65 \<le> n \<and> n \<le> 90) \<or> (192 \<le> n \<and> n \<le> 222 \<and> n \<noteq> 215)
         then char_of (n + 32) else c)"

definition py_lower :: "string \<Rightarrow> string" where
  "py_lower s = map py_lower_char s"

definition py_isspace :: "char \<Rightarrow> bool" where
  "py_isspace c =
     (let n = (of_char c :: nat)
      in (9 \<le> n \<and> n \<le> 13) \<or> (28 \<le> n \<and> n \<le> 32) \<or> n = 133 \<or> n = 160)"

text \<open>\<open>split_acc cur s\<close>: \<open>cur\<close> is the piece being read, reversed.\<close>

fun split_acc :: "string \<Rightarrow> string \<Rightarrow> string list" where
  "split_acc cur [] = (if cur = [] then [] else [rev cur])"
| "split_acc cur (c # cs) =
     (if py_isspace c
      then (if cur = [] then split_acc [] cs else rev cur # split_acc [] cs)
      else split_acc (c # cur) cs)"

definition py_split :: "string \<Rightarrow> string list" where
  "py_split s = split_acc [] s"

text \<open>\<open>t in s\<close> on strings: \<open>t\<close> occurs in \<open>s\<close> as a contiguous piece.\<close>

fun starts_with :: "string \<Rightarrow> string \<Rightarrow> bool" where
  "starts_with [] s = True"
| "starts_with (x # xs) [] = False"
| "starts_with (x # xs) (y # ys) = (x = y \<and> starts_with xs ys)"

fun py_in :: "string \<Rightarrow> string \<Rightarrow> bool" where
  "py_in t [] = (t = [])"
| "py_in t (c # cs) = (starts_with t (c # cs) \<or> py_in t cs)"

section \<open>Python values and exceptions\<close>

text \<open>
  The values a parsed JSON document can hold. A dictionary is the list of its
  items, looked up by key. The code reads of a value that is not the expected
  kind only its type name, for the message of the \<open>AttributeError\<close>.
\<close>

datatype pyval =
    PyNone
  | PyBool bool
  | PyInt int
  | PyStr string
  | PyList "pyval list"
  | PyDict "(string \<times> pyval) list"

fun type_name :: "pyval \<Rightarrow> string" where
  "type_name PyNone = ''NoneType''"
| "type_name (PyBool b) = ''bool''"
| "type_name (PyInt i) = ''int''"
| "type_name (PyStr s) = ''str''"
| "type_name (PyList xs) = ''list''"
| "type_name (PyDict kvs) = ''dict''"

datatype py_error =
    AttributeError string string
  | IndexError
  | KeyError string

text \<open>\<open>str(e)\<close> for the three exceptions.\<close>

fun str_of_error :: "py_error \<Rightarrow> string" where
  "str_of_error (AttributeError tn attr) =
     [CHR 0x27] @ tn @ [CHR 0x27] @ '' object has no attribute '' @ [CHR 0x27] @ attr @ [CHR 0x27]"
| "str_of_error IndexError = ''list index out of range''"
| "str_of_error (KeyError k) = [CHR 0x27] @ k @ [CHR 0x27]"

text \<open>\<open>d.get(k, dflt)\<close> and \<open>d[k]\<close> on a dictionary, \<open>xs[i]\<close> on a list.\<close>

definition dict_get :: "(string \<times> 'v) list \<Rightarrow> string \<Rightarrow> 'v \<Rightarrow> 'v" where
  "dict_get d k dflt = (case map_of d k of None \<Rightarrow> dflt | Some v \<Rightarrow> v)"

definition dict_item :: "(string \<times> 'v) list \<Rightarrow> string \<Rightarrow> py_error + 'v" where
  "dict_item d k = (case map_of d k of None \<Rightarrow> Inl (KeyError k) | Some v \<Rightarrow> Inr v)"

definition py_index :: "'a list \<Rightarrow> nat \<Rightarrow> py_error + 'a" where
  "py_index xs i = (if i < length xs then Inr (xs ! i) else Inl IndexError)"

text \<open>\<open>v.get(k, dflt)\<close> on any value: only a dictionary has the method.\<close>

fun py_get :: "pyval \<Rightarrow> string \<Rightarrow> pyval \<Rightarrow> py_error + pyval" where
  "py_get (PyDict kvs) k dflt = Inr (dict_get kvs k dflt)"
| "py_get v k dflt = Inl (AttributeError (type_name v) ''get'')"

text \<open>The string whose method \<open>attr\<close> is called, when the value is a string.\<close>

fun str_method :: "string \<Rightarrow> pyval \<Rightarrow> py_error + string" where
  "str_method attr (PyStr s) = Inr s"
| "str_method attr v = Inl (AttributeError (type_name v) attr)"

text \<open>
  \<open>sorted(xs, key=f, reverse=True)\<close>: Python's sort is stable, and with
  \<open>reverse=True\<close> elements of equal key keep their order too. A stable sort has
  one result, here the one of insertion sort on the negated key.
\<close>

definition py_sorted_reverse :: "('a \<Rightarrow> int) \<Rightarrow> 'a list \<Rightarrow> 'a list" where
  "py_sorted_reverse f xs = sort_key (\<lambda>x. - f x) xs"

section \<open>SimpleNetworkingRAG: the state\<close>

record stored_doc =
  content :: pyval
  meta :: pyval

record rag_state =
  documents :: "stored_doc list"
  knowledge_base :: "(string \<times> string list) list"

definition networking_strategies :: "string list" where
  "networking_strategies =
    [''Focus on building authentic, mutually beneficial relationships rather than transactional connections.'',
     ''Leverage warm introductions through mutual connections for higher success rates.'',
     ''Participate actively in industry events and professional communities.'',
     ''Share valuable insights and expertise to establish thought leadership.'',
     ''Follow up consistently but respectfully with new connections.'']"

definition introduction_techniques :: "string list" where
  "introduction_techniques =
    [''Research common interests and mutual connections before reaching out.'',
     ''Craft personalized messages that clearly articulate mutual value.'',
     ''Keep initial contact messages concise and professional.'',
     ''Suggest specific ways you can provide value to the target contact.'',
     ''Always thank the introducer and keep them informed of outcomes.'']"

definition industry_insights :: "string list" where
  "industry_insights =
    [''Technology sector values innovation and rapid adaptation.'',
     ''Finance industry prioritizes trust and regulatory compliance.'',
     ''Healthcare focuses on patient outcomes and regulatory standards.'',
     ''Consulting emphasizes problem-solving and client relationships.'']"

definition connection_analysis :: "string list" where
  "connection_analysis =
    [''Strong connections show regular interaction patterns and mutual engagement.'',
     ''Weak ties can be valuable for accessing new information and opportunities.'',
     ''Connection strength correlates with response rates and collaboration success.'',
     ''Geographic proximity often enhances professional relationship development.'']"

text \<open>\<open>__init__\<close>\<close>

definition init_state :: rag_state where
  "init_state =
     \<lparr>documents = [],
      knowledge_base =
        [(''networking_strategies'', networking_strategies),
         (''introduction_techniques'', introduction_techniques),
         (''industry_insights'', industry_insights),
         (''connection_analysis'', connection_analysis)]\<rparr>"

section \<open>add_documents\<close>

text \<open>
  The result dictionary: the keys \<open>success\<close> and \<open>count\<close> are in both literals,
  \<open>total_documents\<close> only in the one of the \<open>try\<close> body, \<open>error\<close> only in the one
  of the handler; \<open>None\<close> is an absent key.
\<close>

record add_result =
  add_success :: bool
  add_count :: int
  add_total_documents :: "int option"
  add_error :: "string option"

text \<open>
  The loop appends to \<open>self.documents\<close> in place: when an element raises, the
  documents appended before it stay.
\<close>

fun add_documents_loop :: "pyval list \<Rightarrow> rag_state \<Rightarrow> py_error option \<times> rag_state" where
  "add_documents_loop [] st = (None, st)"
| "add_documents_loop (doc # docs) st =
     (case py_get doc ''content'' (PyStr []) of
        Inl e \<Rightarrow> (Some e, st)
      | Inr c \<Rightarrow>
          (case py_get doc ''meta'' (PyDict []) of
             Inl e \<Rightarrow> (Some e, st)
           | Inr m \<Rightarrow>
               add_documents_loop docs
                 (st\<lparr>documents := documents st @ [\<lparr>content = c, meta = m\<rparr>]\<rparr>)))"

definition add_documents :: "pyval list \<Rightarrow> rag_state \<Rightarrow> add_result \<times> rag_state" where
  "add_documents docs st =
     (case add_documents_loop docs st of
        (None, st') \<Rightarrow>
          (\<lparr>add_success = True, add_count = int (length docs),
            add_total_documents = Some (int (length (documents st'))),
            add_error = None\<rparr>, st')
      | (Some e, st') \<Rightarrow>
          (\<lparr>add_success = False, add_count = 0,
            add_total_documents = None,
            add_error = Some (str_of_error e)\<rparr>, st'))"


section \<open>Relevance score (simpleHaystackRAG.py, line 102)\<close>

text \<open>
  \<open>sum(1 for term in search_terms if term in content)\<close>: the generator yields one
  \<open>1\<close> for each element of the list \<open>search_terms\<close> that occurs in the
  lower-cased content, here \<open>lowered\<close>.
\<close>

definition relevance_score_of :: "string list \<Rightarrow> string \<Rightarrow> int" where
  "relevance_score_of search_terms lowered =
     sum_list (map (\<lambda>term. 1) (filter (\<lambda>term. py_in term lowered) search_terms))"

text \<open>
  The score as the specification words it: the number of distinct tokens of the
  question that occur in the document.
\<close>

definition distinct_token_count :: "string list \<Rightarrow> string \<Rightarrow> int" where
  "distinct_token_count search_terms lowered =
     int (length (remdups (filter (\<lambda>term. py_in term lowered) search_terms)))"

section \<open>Retrieval: \<open>_find_relevant_documents\<close>\<close>

record ranked_doc =
  r_content :: string
  relevance_score :: int
  r_meta :: pyval

text \<open>
  \<open>s[:200] + '...' if len(s) > 200 else s\<close>
\<close>

definition truncate_content :: "string \<Rightarrow> string" where
  "truncate_content s = (if int (length s) > 200 then take 200 s @ ''...'' else s)"

text \<open>
  The loop over \<open>self.documents\<close>, with the list \<open>relevant\<close> built so far.
  \<open>doc['content'].lower()\<close> raises for a content that is not a string, before the
  score is computed, whatever the search terms are.
\<close>

fun find_loop :: "string list \<Rightarrow> stored_doc list \<Rightarrow> ranked_doc list \<Rightarrow> py_error + ranked_doc list" where
  "find_loop search_terms [] relevant = Inr relevant"
| "find_loop search_terms (doc # docs) relevant =
     (case str_method ''lower'' (content doc) of
        Inl e \<Rightarrow> Inl e
      | Inr s \<Rightarrow>
          (let score = relevance_score_of search_terms (py_lower s)
           in if score > 0
              then find_loop search_terms docs
                     (relevant @ [\<lparr>r_content = truncate_content s,
                                   relevance_score = score,
                                   r_meta = meta doc\<rparr>])
              else find_loop search_terms docs relevant))"

text \<open>
  The method reads \<open>self.documents\<close> and writes nothing to \<open>self\<close>; the state
  is returned with the result, as for \<open>query\<close> below.
\<close>

definition find_relevant_documents ::
  "rag_state \<Rightarrow> string \<Rightarrow> string \<Rightarrow> (py_error + ranked_doc list) \<times> rag_state" where
  "find_relevant_documents st question context =
     (let search_terms = py_split (py_lower question)
      in case find_loop search_terms (documents st) [] of
           Inl e \<Rightarrow> (Inl e, st)
         | Inr relevant \<Rightarrow> (Inr (py_sorted_reverse relevance_score relevant), st))"

section \<open>Answer synthesis: \<open>_generate_answer\<close> and \<open>_extract_industry_context\<close>\<close>

definition industries :: "string list" where
  "industries = [''technology'', ''finance'', ''healthcare'', ''consulting'', ''tech'', ''fintech'']"

text \<open>The \<open>for\<close> loop with its early \<open>return\<close>, and the \<open>return "general"\<close> after it.\<close>

fun first_industry :: "string list \<Rightarrow> string \<Rightarrow> string" where
  "first_industry [] text = ''general''"
| "first_industry (industry # rest) text =
     (if py_in industry text then industry else first_industry rest text)"

definition extract_industry_context :: "string \<Rightarrow> string \<Rightarrow> string" where
  "extract_industry_context question context =
     first_industry industries (py_lower (question @ '' '' @ context))"

text \<open>
  \<open>next((insight for insight in knowledge if ic.lower() in insight.lower()), dflt)\<close>
\<close>

fun next_insight :: "string \<Rightarrow> string list \<Rightarrow> string \<Rightarrow> string" where
  "next_insight ic [] dflt = dflt"
| "next_insight ic (insight # rest) dflt =
     (if py_in (py_lower ic) (py_lower insight) then insight else next_insight ic rest dflt)"

text \<open>Sequencing of computations that may raise.\<close>

definition bind_err :: "py_error + 'a \<Rightarrow> ('a \<Rightarrow> py_error + 'b) \<Rightarrow> py_error + 'b" where
  "bind_err m f = (case m of Inl e \<Rightarrow> Inl e | Inr x \<Rightarrow> f x)"

text \<open>
  In the \<open>industry_insights\<close> branch the default \<open>knowledge[0]\<close> is an argument of
  \<open>next\<close>, so it is evaluated (and may raise) before the search starts.
\<close>

definition generate_answer ::
  "string \<Rightarrow> string \<Rightarrow> string \<Rightarrow> string list \<Rightarrow> py_error + string" where
  "generate_answer question context query_type knowledge =
     (if query_type = ''networking_strategy'' then
        (if py_in ''company'' (py_lower question) then
           bind_err (py_index knowledge 0) (\<lambda>k0.
             Inr (''When networking within a specific company, focus on identifying key decision-makers and building relationships through shared professional interests. ''
                  @ k0 @ '' Research the company culture and recent developments to find relevant conversation starters.''))
         else
           bind_err (py_index knowledge 0) (\<lambda>k0.
           bind_err (py_index knowledge 1) (\<lambda>k1.
             Inr (k0 @ '' '' @ k1 @ '' Consider your specific goals and target audience when developing your approach.''))))
      else if query_type = ''introduction_advice'' then
        bind_err (py_index knowledge 0) (\<lambda>k0.
        bind_err (py_index knowledge 1) (\<lambda>k1.
          Inr (''For effective introductions, '' @ k0 @ '' '' @ k1
               @ '' Remember that successful introductions create value for all parties involved.'')))
      else if query_type = ''industry_insights'' then
        (let industry_context = extract_industry_context question context
         in bind_err (py_index knowledge 0) (\<lambda>k0.
              (let relevant_insight = next_insight industry_context knowledge k0
               in Inr (''Based on industry analysis: '' @ relevant_insight
                       @ '' Consider how this applies to your specific networking objectives.''))))
      else if query_type = ''connection_analysis'' then
        bind_err (py_index knowledge 0) (\<lambda>k0.
        bind_err (py_index knowledge 2) (\<lambda>k2.
          Inr (''Connection analysis shows: '' @ k0 @ '' '' @ k2
               @ '' Use these insights to prioritize your outreach efforts.'')))
      else
        bind_err (py_index knowledge 0) (\<lambda>k0.
          Inr (''Based on professional networking best practices: '' @ k0)))"

section \<open>Insights: \<open>_extract_insights\<close> of SimpleNetworkingRAG\<close>

definition networking_strategy_insights :: "string list" where
  "networking_strategy_insights =
    [''Prioritize quality over quantity in professional relationships'',
     ''Leverage existing connections for warm introductions'',
     ''Engage consistently with your professional network'']"

definition base_insights :: "(string \<times> string list) list" where
  "base_insights =
    [(''networking_strategy'', networking_strategy_insights),
     (''introduction_advice'',
        [''Research thoroughly before making contact'',
         ''Clearly articulate mutual value propositions'',
         ''Follow professional introduction etiquette'']),
     (''industry_insights'',
        [''Stay current with industry trends and developments'',
         ''Identify key influencers and thought leaders'',
         ''Participate in relevant professional communities'']),
     (''connection_analysis'',
        [''Monitor relationship strength indicators'',
         ''Track engagement patterns over time'',
         ''Focus on connections with highest potential value''])]"

text \<open>
  \<open>base_insights.get(query_type, base_insights['networking_strategy'])\<close>: the
  default is the first entry of the literal above, so the lookup cannot raise.
\<close>

definition rag_extract_insights :: "string \<Rightarrow> string \<Rightarrow> string list \<Rightarrow> string list" where
  "rag_extract_insights question query_type knowledge =
     dict_get base_insights query_type networking_strategy_insights"

section \<open>\<open>query\<close>\<close>

text \<open>
  The result dictionary: \<open>success\<close>, \<open>answer\<close>, \<open>confidence\<close>, \<open>sources\<close> and
  \<open>insights\<close> are keys of both literals, \<open>retrieved_documents\<close> only of the one
  returned by the \<open>try\<close> body, \<open>error\<close> only of the one returned by the handler;
  \<open>None\<close> is an absent key.
\<close>

record query_result =
  success :: bool
  answer :: string
  confidence :: real
  sources :: "string list"
  insights :: "string list"
  retrieved_documents :: "ranked_doc list option"
  error :: "string option"

text \<open>
  The body of the \<open>try\<close>. The default of \<open>self.knowledge_base.get\<close> is the item
  \<open>self.knowledge_base['networking_strategies']\<close>, read before the call.
\<close>

definition query_body ::
  "rag_state \<Rightarrow> string \<Rightarrow> string \<Rightarrow> string \<Rightarrow> (py_error + query_result) \<times> rag_state" where
  "query_body st question context query_type =
     (case dict_item (knowledge_base st) ''networking_strategies'' of
        Inl e \<Rightarrow> (Inl e, st)
      | Inr dflt \<Rightarrow>
          (let relevant_knowledge = dict_get (knowledge_base st) query_type dflt
           in case find_relevant_documents st question context of
                (Inl e, st1) \<Rightarrow> (Inl e, st1)
              | (Inr relevant_docs, st1) \<Rightarrow>
                  (case generate_answer question context query_type relevant_knowledge of
                     Inl e \<Rightarrow> (Inl e, st1)
                   | Inr ans \<Rightarrow>
                       (let ins = rag_extract_insights question query_type relevant_knowledge
                        in (Inr \<lparr>success = True,
                                 answer = ans,
                                 confidence = 0.85,
                                 sources = [''Networking knowledge base - '' @ query_type],
                                 insights = ins,
                                 retrieved_documents = Some (take 3 relevant_docs),
                                 error = None\<rparr>, st1)))))"

definition query ::
  "rag_state \<Rightarrow> string \<Rightarrow> string \<Rightarrow> string \<Rightarrow> query_result \<times> rag_state" where
  "query st question context query_type =
     (case query_body st question context query_type of
        (Inr result, st1) \<Rightarrow> (result, st1)
      | (Inl e, st1) \<Rightarrow>
          (\<lparr>success = False,
            answer = [],
            confidence = 0.0,
            sources = [],
            insights = [],
            retrieved_documents = None,
            error = Some (str_of_error e)\<rparr>, st1))"

section \<open>NetworkingRAGPipeline: \<open>extract_insights\<close> (haystack_rag_pipeline.py)\<close>

definition extract_insights :: "string \<Rightarrow> string \<Rightarrow> string list" where
  "extract_insights response query_type =
     (let i0 = [];
          i1 = (if py_in ''warm introduction'' (py_lower response)
                then i0 @ [''Leverage warm introductions''] else i0);
          i2 = (if py_in ''mutual'' (py_lower response)
                then i1 @ [''Focus on mutual connections''] else i1);
          i3 = (if py_in ''value'' (py_lower response)
                then i2 @ [''Lead with value proposition''] else i2);
          i4 = (if py_in ''follow up'' (py_lower response) \<or> py_in ''follow-up'' (py_lower response)
                then i3 @ [''Maintain consistent follow-up''] else i3);
          i5 = (if py_in ''authentic'' (py_lower response)
                then i4 @ [''Build authentic relationships''] else i4);
          i6 = (if py_in ''industry'' (py_lower response)
                then i5 @ [''Consider industry context''] else i5);
          i7 = (if py_in ''timing'' (py_lower response)
                then i6 @ [''Optimize outreach timing''] else i6)
      in take 5 i7)"


section \<open>Well-formed states and the operations as specified\<close>

text \<open>
  The data model of the specification: the content of a stored document is
  text, and the knowledge table is the one \<open>__init__\<close> builds.
\<close>

fun is_str :: "pyval \<Rightarrow> bool" where
  "is_str (PyStr s) = True"
| "is_str v = False"

fun is_dict :: "pyval \<Rightarrow> bool" where
  "is_dict (PyDict kvs) = True"
| "is_dict v = False"

definition wf_state :: "rag_state \<Rightarrow> bool" where
  "wf_state st \<longleftrightarrow>
     knowledge_base st = knowledge_base init_state \<and>
     list_all (\<lambda>d. is_str (content d)) (documents st)"

fun text_of :: "pyval \<Rightarrow> string" where
  "text_of (PyStr s) = s"
| "text_of v = []"

text \<open>The knowledge \<open>query\<close> selects for a category tag in a well-formed state.\<close>

definition knowledge_for :: "string \<Rightarrow> string list" where
  "knowledge_for query_type =
     dict_get (knowledge_base init_state) query_type networking_strategies"

text \<open>
  Retrieval in the words of the specification: score every document, discard
  the documents of score zero, sort the rest by descending score (stably),
  truncate each content to 200 characters with an ellipsis when it was longer,
  return the first three.
\<close>

definition doc_score :: "string \<Rightarrow> stored_doc \<Rightarrow> int" where
  "doc_score question d =
     relevance_score_of (py_split (py_lower question)) (py_lower (text_of (content d)))"

definition survivors :: "string \<Rightarrow> stored_doc list \<Rightarrow> stored_doc list" where
  "survivors question docs = filter (\<lambda>d. doc_score question d \<noteq> 0) docs"

definition ranked_order :: "string \<Rightarrow> stored_doc list \<Rightarrow> stored_doc list" where
  "ranked_order question docs =
     sort_key (\<lambda>d. - doc_score question d) (survivors question docs)"

definition spec_truncate :: "string \<Rightarrow> string" where
  "spec_truncate s = (if length s \<le> 200 then s else take 200 s @ ''...'')"

definition ranked_of :: "string \<Rightarrow> stored_doc \<Rightarrow> ranked_doc" where
  "ranked_of question d =
     \<lparr>r_content = spec_truncate (text_of (content d)),
      relevance_score = doc_score question d,
      r_meta = meta d\<rparr>"

definition retrieved_spec :: "string \<Rightarrow> stored_doc list \<Rightarrow> ranked_doc list" where
  "retrieved_spec question docs =
     take 3 (map (ranked_of question) (ranked_order question docs))"

text \<open>
  Ingestion in the words of the specification: one stored document per input,
  a missing content being the empty text and a missing metadata the empty
  mapping.
\<close>

fun stored_of :: "pyval \<Rightarrow> stored_doc" where
  "stored_of (PyDict kvs) =
     \<lparr>content = (case map_of kvs ''content'' of None \<Rightarrow> PyStr [] | Some c \<Rightarrow> c),
      meta = (case map_of kvs ''meta'' of None \<Rightarrow> PyDict [] | Some m \<Rightarrow> m)\<rparr>"
| "stored_of v = \<lparr>content = PyStr [], meta = PyDict []\<rparr>"

text \<open>
  The phrase-trigger strategy in the words of the specification: a fixed
  ordered table of trigger phrases, each with its insight; the insights of the
  triggers present in the lower-cased text, in table order, at most five.
\<close>

definition trigger_table :: "(string list \<times> string) list" where
  "trigger_table =
    [([''warm introduction''], ''Leverage warm introductions''),
     ([''mutual''], ''Focus on mutual connections''),
     ([''value''], ''Lead with value proposition''),
     ([''follow up'', ''follow-up''], ''Maintain consistent follow-up''),
     ([''authentic''], ''Build authentic relationships''),
     ([''industry''], ''Consider industry context''),
     ([''timing''], ''Optimize outreach timing'')]"

definition triggered :: "string \<Rightarrow> string list \<times> string \<Rightarrow> bool" where
  "triggered response entry = list_ex (\<lambda>t. py_in t (py_lower response)) (fst entry)"

definition phrase_trigger_spec :: "string \<Rightarrow> string list" where
  "phrase_trigger_spec response =
     take 5 (map snd (filter (triggered response) trigger_table))"



section \<open>Facts about the string operations\<close>

lemma starts_with_iff: "starts_with t s \<longleftrightarrow> (\<exists>r. s = t @ r)"
  by (induction t s rule: starts_with.induct) auto

lemma py_in_iff: "py_in t s \<longleftrightarrow> (\<exists>p r. s = p @ t @ r)"
proof (induction s)
  case Nil
  then show ?case by auto
next
  case (Cons c cs)
  show ?case
  proof
    assume "py_in t (c # cs)"
    then consider "starts_with t (c # cs)" | "py_in t cs" by auto
    then show "\<exists>p r. c # cs = p @ t @ r"
    proof cases
      case 1
      then obtain r where "c # cs = t @ r" by (auto simp: starts_with_iff)
      then have "c # cs = [] @ t @ r" by simp
      then show ?thesis by blast
    next
      case 2
      then obtain p r where "cs = p @ t @ r" using Cons.IH by auto
      then have "c # cs = (c # p) @ t @ r" by simp
      then show ?thesis by blast
    qed
  next
    assume "\<exists>p r. c # cs = p @ t @ r"
    then obtain p r where pr: "c # cs = p @ t @ r" by auto
    show "py_in t (c # cs)"
    proof (cases p)
      case Nil
      with pr have "starts_with t (c # cs)" by (auto simp: starts_with_iff)
      then show ?thesis by simp
    next
      case (Cons a p')
      with pr have "cs = p' @ t @ r" by simp
      then have "py_in t cs" using Cons.IH by blast
      then show ?thesis by simp
    qed
  qed
qed

lemma distinct_token_count_card:
  "distinct_token_count ts c = int (card {t \<in> set ts. py_in t c})"
  by (simp add: distinct_token_count_def length_remdups_card_conv)

lemma sum_list_ones: "sum_list (map (\<lambda>x. (1::int)) xs) = int (length xs)"
  by (induction xs) auto

lemma relevance_score_of_length:
  "relevance_score_of ts c = int (length (filter (\<lambda>t. py_in t c) ts))"
  by (simp add: relevance_score_of_def sum_list_ones)

lemma count_list_filter_if:
  "count_list (filter P xs) x = (if P x then count_list xs x else 0)"
  by (induction xs) auto

lemma length_filter_count_list:
  "length (filter P xs) = (\<Sum>x \<in> set xs. if P x then count_list xs x else 0)"
proof -
  have "length (filter P xs) = (\<Sum>x \<in> set (filter P xs). count_list (filter P xs) x)"
    by (simp add: sum_count_set)
  also have "\<dots> = (\<Sum>x \<in> {x \<in> set xs. P x}. count_list xs x)"
    by (intro sum.cong) (auto simp: count_list_filter_if)
  also have "\<dots> = (\<Sum>x \<in> set xs. if P x then count_list xs x else 0)"
    by (rule sum.inter_filter) simp
  finally show ?thesis .
qed

section \<open>Facts about sorting and retrieval\<close>

lemma insort_key_map:
  "insort_key f (g x) (map g ys) = map g (insort_key (\<lambda>y. f (g y)) x ys)"
  by (induction ys) auto

lemma sort_key_map:
  "sort_key f (map g xs) = map g (sort_key (\<lambda>y. f (g y)) xs)"
  by (induction xs) (auto simp: insort_key_map)

lemma truncate_content_spec: "truncate_content s = spec_truncate s"
  by (auto simp: truncate_content_def spec_truncate_def)

lemma find_loop_strings:
  assumes "list_all (\<lambda>d. is_str (content d)) docs"
  shows "find_loop (py_split (py_lower question)) docs acc =
           Inr (acc @ map (ranked_of question) (survivors question docs))"
  using assms
proof (induction docs arbitrary: acc)
  case Nil
  then show ?case by (simp add: survivors_def)
next
  case (Cons d docs)
  from Cons.prems obtain s where s: "content d = PyStr s"
    by (cases "content d") auto
  have nonneg: "0 \<le> doc_score question d"
    by (simp add: doc_score_def relevance_score_of_length)
  from Cons.prems have rest: "list_all (\<lambda>d. is_str (content d)) docs" by simp
  show ?case
  proof (cases "doc_score question d = 0")
    case True
    with s Cons.IH [OF rest] show ?thesis
      by (simp add: survivors_def doc_score_def)
  next
    case False
    with nonneg have pos: "0 < doc_score question d" by simp
    with s False Cons.IH [OF rest] show ?thesis
      by (simp add: survivors_def doc_score_def ranked_of_def truncate_content_spec Let_def)
  qed
qed

lemma relevance_score_ranked_of: "relevance_score (ranked_of question d) = doc_score question d"
  by (simp add: ranked_of_def)

lemma find_relevant_documents_strings:
  assumes "list_all (\<lambda>d. is_str (content d)) (documents st)"
  shows "find_relevant_documents st question context =
           (Inr (map (ranked_of question) (ranked_order question (documents st))), st)"
  using find_loop_strings [OF assms, of question "[]"]
  by (simp add: find_relevant_documents_def py_sorted_reverse_def sort_key_map
      relevance_score_ranked_of ranked_order_def)

lemma find_relevant_documents_state: "snd (find_relevant_documents st question context) = st"
  by (simp add: find_relevant_documents_def Let_def split: sum.splits)

section \<open>Facts about the knowledge table and the answer templates\<close>

lemma knowledge_for_cases:
  "knowledge_for t =
     (if t = ''networking_strategies'' then networking_strategies
      else if t = ''introduction_techniques'' then introduction_techniques
      else if t = ''industry_insights'' then industry_insights
      else if t = ''connection_analysis'' then connection_analysis
      else networking_strategies)"
  by (simp add: knowledge_for_def dict_get_def init_state_def)

lemma length_knowledge_for: "4 \<le> length (knowledge_for t)"
  by (simp add: knowledge_for_cases networking_strategies_def introduction_techniques_def
      industry_insights_def connection_analysis_def)

lemma generate_answer_total:
  assumes "3 \<le> length k"
  shows "\<exists>ans. generate_answer question context t k = Inr ans \<and> ans \<noteq> []"
  using assms by (auto simp: generate_answer_def bind_err_def py_index_def Let_def)

lemma query_body_wf:
  assumes "wf_state st"
  shows "query_body st question context t =
           (case generate_answer question context t (knowledge_for t) of
              Inl e \<Rightarrow> (Inl e, st)
            | Inr ans \<Rightarrow>
                (Inr \<lparr>success = True, answer = ans, confidence = 0.85,
                      sources = [''Networking knowledge base - '' @ t],
                      insights = rag_extract_insights question t (knowledge_for t),
                      retrieved_documents = Some (retrieved_spec question (documents st)),
                      error = None\<rparr>, st))"
proof -
  from assms have kb: "knowledge_base st = knowledge_base init_state"
    and docs: "list_all (\<lambda>d. is_str (content d)) (documents st)"
    by (simp_all add: wf_state_def)
  have item: "dict_item (knowledge_base init_state) ''networking_strategies'' = Inr networking_strategies"
    by (simp add: dict_item_def init_state_def)
  show ?thesis
    by (simp add: query_body_def kb item find_relevant_documents_strings [OF docs]
        knowledge_for_def [symmetric] retrieved_spec_def Let_def split: sum.splits)
qed

lemma query_wf:
  assumes "wf_state st"
  shows "\<exists>ans. generate_answer question context t (knowledge_for t) = Inr ans \<and> ans \<noteq> [] \<and>
           query st question context t =
             (\<lparr>success = True, answer = ans, confidence = 0.85,
               sources = [''Networking knowledge base - '' @ t],
               insights = rag_extract_insights question t (knowledge_for t),
               retrieved_documents = Some (retrieved_spec question (documents st)),
               error = None\<rparr>, st)"
proof -
  have "3 \<le> length (knowledge_for t)" using length_knowledge_for [of t] by simp
  from generate_answer_total [OF this] obtain ans
    where ans: "generate_answer question context t (knowledge_for t) = Inr ans" "ans \<noteq> []"
    by blast
  then show ?thesis
    by (simp add: query_def query_body_wf [OF assms])
qed

section \<open>The relevance score\<close>

text \<open>
  C1 (amended). For every question and every document text, the relevance
  score is the number of tokens of the lower-cased, whitespace-split question,
  each counted as often as the question repeats it, that occur as substrings of
  the lower-cased content: every distinct token that occurs contributes its
  number of repetitions in the question. How often the token occurs in the
  document does not matter, only whether it occurs.
\<close>

theorem relevance_score_counts_question_tokens:
  "relevance_score_of (py_split (py_lower question)) (py_lower s) =
     (\<Sum>t \<in> set (py_split (py_lower question)).
        if (\<exists>p r. py_lower s = p @ t @ r)
        then int (count_list (py_split (py_lower question)) t) else 0)"
  by (simp add: relevance_score_of_length length_filter_count_list py_in_iff
      if_distrib [of int] cong: if_cong)

text \<open>
  C1 as stated fails: with the one stored document \<open>Warm intro\<close> and the question
  \<open>warm WARM\<close>, the query returns the document with score 2, while one distinct
  token of the question occurs in it.
\<close>

theorem relevance_score_repeated_token_counterexample:
  "retrieved_documents
     (fst (query (snd (add_documents [PyDict [(''content'', PyStr ''Warm intro'')]] init_state))
             ''warm WARM'' [] ''networking_strategy''))
     = Some [\<lparr>r_content = ''Warm intro'', relevance_score = 2, r_meta = PyDict []\<rparr>]
   \<and> distinct_token_count (py_split (py_lower ''warm WARM'')) (py_lower ''Warm intro'') = 1"
  by code_simp

section \<open>Facts about the ranking\<close>






lemma split_acc_empty: "split_acc cur s = [] \<longleftrightarrow> cur = [] \<and> list_all py_isspace s"
  by (induction cur s rule: split_acc.induct) auto


lemma wf_state_init: "wf_state init_state"
  by (simp add: wf_state_def init_state_def)

section \<open>Frame of the query\<close>

text \<open>
  C9. Every call of \<open>query\<close>, successful or not, and every call of
  \<open>_find_relevant_documents\<close> leaves the state as it was: the stored documents
  and the knowledge table after the call are those before it.
\<close>

theorem query_read_only:
  "snd (query st question ctx t) = st
   \<and> documents (snd (query st question ctx t)) = documents st
   \<and> knowledge_base (snd (query st question ctx t)) = knowledge_base st
   \<and> snd (find_relevant_documents st question ctx) = st"
proof -
  have "snd (query_body st question ctx t) = st"
    using find_relevant_documents_state [of st question ctx]
    by (auto simp: query_body_def Let_def split: sum.splits prod.splits)
  then have "snd (query st question ctx t) = st"
    by (auto simp: query_def split: sum.splits prod.splits)
  then show ?thesis by (simp add: find_relevant_documents_state)
qed

section \<open>Sources of a successful query\<close>

text \<open>
  C10. The \<open>sources\<close> of every successful query is the one-element list holding
  \<open>Networking knowledge base - \<close> followed by the requested category tag,
  whatever the store holds and whatever was retrieved.
\<close>

theorem sources_of_successful_query:
  assumes "success (fst (query st question ctx t))"
  shows "sources (fst (query st question ctx t)) = [''Networking knowledge base - '' @ t]"
  using assms
  by (auto simp: query_def query_body_def Let_def split: sum.splits prod.splits)

theorem sources_of_successful_query_witness:
  "success (fst (query (snd (add_documents [PyDict [(''content'', PyStr ''Warm intro'')]] init_state))
                  ''warm'' [] ''bogus''))
   \<and> sources (fst (query (snd (add_documents [PyDict [(''content'', PyStr ''Warm intro'')]] init_state))
                  ''warm'' [] ''bogus''))
       = [''Networking knowledge base - bogus'']"
proof -
  have s: "success (fst (query (snd (add_documents [PyDict [(''content'', PyStr ''Warm intro'')]] init_state))
                  ''warm'' [] ''bogus''))"
    by code_simp
  from sources_of_successful_query [OF s] s show ?thesis by simp
qed

section \<open>Facts about ingestion\<close>

lemma add_documents_loop_dicts:
  assumes "list_all is_dict docs"
  shows "add_documents_loop docs st =
           (None, st\<lparr>documents := documents st @ map stored_of docs\<rparr>)"
  using assms
proof (induction docs arbitrary: st)
  case Nil
  then show ?case by simp
next
  case (Cons doc docs)
  from Cons.prems obtain kvs where doc: "doc = PyDict kvs"
    by (cases doc) auto
  from Cons.prems have "list_all is_dict docs" by simp
  from Cons.IH [OF this] doc show ?case
    by (simp add: dict_get_def)
qed

lemma add_documents_loop_grows:
  "prefix (documents st) (documents (snd (add_documents_loop docs st)))
   \<and> knowledge_base (snd (add_documents_loop docs st)) = knowledge_base st"
proof (induction docs arbitrary: st)
  case Nil
  then show ?case by simp
next
  case (Cons doc docs)
  show ?case
  proof (cases doc)
    case (PyDict kvs)
    let ?st' = "st\<lparr>documents := documents st @
                  [\<lparr>content = dict_get kvs ''content'' (PyStr []),
                    meta = dict_get kvs ''meta'' (PyDict [])\<rparr>]\<rparr>"
    have step: "add_documents_loop (doc # docs) st = add_documents_loop docs ?st'"
      using PyDict by simp
    from Cons.IH [of ?st']
    have pre: "prefix (documents st @
                  [\<lparr>content = dict_get kvs ''content'' (PyStr []),
                    meta = dict_get kvs ''meta'' (PyDict [])\<rparr>])
            (documents (snd (add_documents_loop docs ?st')))"
      and kb: "knowledge_base (snd (add_documents_loop docs ?st')) = knowledge_base st"
      by simp_all
    from pre have "prefix (documents st) (documents (snd (add_documents_loop docs ?st')))"
      by (rule append_prefixD)
    with kb show ?thesis
      unfolding step by simp
  qed simp_all
qed

section \<open>Ingestion\<close>

text \<open>
  C7. When every input is a dictionary (a well-formed document), ingestion
  succeeds: each input is appended to the store in order, an input without a
  content key being stored with the empty text as content, the added count is
  the number of inputs and the total count is the size of the store before the
  call plus the added count. Whatever the inputs are, the store after the call
  extends the store before it, and the knowledge table is unchanged.
\<close>

theorem add_documents_appends:
  "(list_all is_dict docs \<longrightarrow>
      add_documents docs st =
        (\<lparr>add_success = True,
          add_count = int (length docs),
          add_total_documents = Some (int (length (documents st)) + int (length docs)),
          add_error = None\<rparr>,
         st\<lparr>documents := documents st @ map stored_of docs\<rparr>))
   \<and> (\<forall>kvs. map_of kvs ''content'' = None \<longrightarrow> content (stored_of (PyDict kvs)) = PyStr [])
   \<and> (\<forall>kvs c. map_of kvs ''content'' = Some c \<longrightarrow> content (stored_of (PyDict kvs)) = c)
   \<and> prefix (documents st) (documents (snd (add_documents docs st)))
   \<and> knowledge_base (snd (add_documents docs st)) = knowledge_base st"
proof -
  have "snd (add_documents docs st) = snd (add_documents_loop docs st)"
    by (simp add: add_documents_def split: prod.splits option.splits)
  with add_documents_loop_grows [of st docs]
  have "prefix (documents st) (documents (snd (add_documents docs st)))
      \<and> knowledge_base (snd (add_documents docs st)) = knowledge_base st"
    by simp
  then show ?thesis
    by (simp add: add_documents_def add_documents_loop_dicts)
qed

text \<open>Two inputs, the second without content, into the initial store.\<close>

theorem add_documents_appends_witness:
  "list_all is_dict [PyDict [(''content'', PyStr ''Warm intro''), (''meta'', PyDict [(''source'', PyStr ''test'')])],
                     PyDict [(''meta'', PyDict [])]]
   \<and> add_documents [PyDict [(''content'', PyStr ''Warm intro''), (''meta'', PyDict [(''source'', PyStr ''test'')])],
                     PyDict [(''meta'', PyDict [])]] init_state
     = (\<lparr>add_success = True, add_count = 2, add_total_documents = Some 2, add_error = None\<rparr>,
        init_state\<lparr>documents :=
          [\<lparr>content = PyStr ''Warm intro'', meta = PyDict [(''source'', PyStr ''test'')]\<rparr>,
           \<lparr>content = PyStr [], meta = PyDict []\<rparr>]\<rparr>)"
proof -
  let ?docs = "[PyDict [(''content'', PyStr ''Warm intro''), (''meta'', PyDict [(''source'', PyStr ''test'')])],
                PyDict [(''meta'', PyDict [])]]"
  have d: "list_all is_dict ?docs" by simp
  from add_documents_appends [of ?docs init_state] d
  have "add_documents ?docs init_state =
        (\<lparr>add_success = True,
          add_count = int (length ?docs),
          add_total_documents = Some (int (length (documents init_state)) + int (length ?docs)),
          add_error = None\<rparr>,
         init_state\<lparr>documents := documents init_state @ map stored_of ?docs\<rparr>)"
    by blast
  with d show ?thesis by (simp add: init_state_def)
qed

section \<open>Facts about the insight strategies\<close>

lemma chain_filter:
  "(let i0 = [];
        i1 = (if b1 then i0 @ [s1] else i0);
        i2 = (if b2 then i1 @ [s2] else i1);
        i3 = (if b3 then i2 @ [s3] else i2);
        i4 = (if b4 then i3 @ [s4] else i3);
        i5 = (if b5 then i4 @ [s5] else i4);
        i6 = (if b6 then i5 @ [s6] else i5);
        i7 = (if b7 then i6 @ [s7] else i6)
    in f i7)
   = f (map snd (filter fst
       [(b1, s1), (b2, s2), (b3, s3), (b4, s4), (b5, s5), (b6, s6), (b7, s7)]))"
  by (simp add: Let_def)

lemma filter_map_fst:
  "map snd (filter (\<lambda>e. P (fst e)) tbl) = map snd (filter fst (map (\<lambda>e. (P (fst e), snd e)) tbl))"
  by (induction tbl) auto

lemma extract_insights_spec: "extract_insights response t = phrase_trigger_spec response"
proof -
  have "phrase_trigger_spec response =
     take 5 (map snd (filter fst (map (\<lambda>e. (list_ex (\<lambda>t. py_in t (py_lower response)) (fst e), snd e)) trigger_table)))"
    unfolding phrase_trigger_spec_def triggered_def
    by (simp only: filter_map_fst [of "\<lambda>ts. list_ex (\<lambda>t. py_in t (py_lower response)) ts"])
  also have "\<dots> = extract_insights response t"
    unfolding extract_insights_def chain_filter
    by (simp only: trigger_table_def list.map fst_conv snd_conv list_ex_Cons_iff list_ex_Nil_iff simp_thms)
  finally show ?thesis by simp
qed

lemma distinct_trigger_insights: "distinct (map snd trigger_table)"
  by (simp add: trigger_table_def)

lemma phrase_trigger_spec_distinct: "distinct (phrase_trigger_spec response)"
  unfolding phrase_trigger_spec_def
  by (intro distinct_take distinct_map_filter distinct_trigger_insights)

lemma phrase_trigger_spec_subseq: "subseq (phrase_trigger_spec response) (map snd trigger_table)"
proof -
  have "subseq (take 5 (map snd (filter (triggered response) trigger_table)))
          (map snd (filter (triggered response) trigger_table))"
    by (rule prefix_imp_subseq) (rule take_is_prefix)
  moreover have "subseq (map snd (filter (triggered response) trigger_table)) (map snd trigger_table)"
    by (rule subseq_map) simp
  ultimately show ?thesis
    unfolding phrase_trigger_spec_def by (rule subseq_order.trans)
qed


lemma rag_extract_insights_bounded:
  "length (rag_extract_insights question t k) = 3 \<and> distinct (rag_extract_insights question t k)"
  by (simp add: rag_extract_insights_def dict_get_def base_insights_def
      networking_strategy_insights_def)

section \<open>The insight lists\<close>

text \<open>
  C8. The phrase-trigger strategy returns the insights of the triggers present
  in the lower-cased text, in the order of the trigger table, cut to five: at
  most five insights, without duplicates, a subsequence of the table's
  insights. The category-default strategy returns the fixed list of the
  category, the list of \<open>networking_strategy\<close> for a tag the table does not
  have: at most five insights (three), without duplicates.
\<close>

theorem insights_bounded_ordered_distinct:
  "extract_insights response t = phrase_trigger_spec response
   \<and> length (extract_insights response t) \<le> 5
   \<and> distinct (extract_insights response t)
   \<and> subseq (extract_insights response t) (map snd trigger_table)
   \<and> rag_extract_insights question t k = dict_get base_insights t networking_strategy_insights
   \<and> length (rag_extract_insights question t k) \<le> 5
   \<and> distinct (rag_extract_insights question t k)"
proof -
  have "length (phrase_trigger_spec response) \<le> 5"
    by (simp add: phrase_trigger_spec_def)
  moreover have "length (rag_extract_insights question t k) \<le> 5"
    using rag_extract_insights_bounded [of question t k] by simp
  ultimately show ?thesis
    using phrase_trigger_spec_distinct [of response] phrase_trigger_spec_subseq [of response]
      rag_extract_insights_bounded [of question t k]
    by (simp add: extract_insights_spec rag_extract_insights_def)
qed

text \<open>A text with all seven triggers: the first five insights are returned.\<close>

theorem insights_bounded_ordered_distinct_witness:
  "extract_insights ''Timing: a Warm Introduction of mutual value; follow-up in an authentic, industry way'' []
     = [''Leverage warm introductions'', ''Focus on mutual connections'',
        ''Lead with value proposition'', ''Maintain consistent follow-up'',
        ''Build authentic relationships'']
   \<and> length (extract_insights ''Timing: a Warm Introduction of mutual value; follow-up in an authentic, industry way'' []) \<le> 5
   \<and> distinct (extract_insights ''Timing: a Warm Introduction of mutual value; follow-up in an authentic, industry way'' [])"
proof -
  have ev: "phrase_trigger_spec ''Timing: a Warm Introduction of mutual value; follow-up in an authentic, industry way''
     = [''Leverage warm introductions'', ''Focus on mutual connections'',
        ''Lead with value proposition'', ''Maintain consistent follow-up'',
        ''Build authentic relationships'']"
    by code_simp
  from insights_bounded_ordered_distinct
    [of "''Timing: a Warm Introduction of mutual value; follow-up in an authentic, industry way''" "[]"]
  show ?thesis unfolding ev by simp
qed

section \<open>Facts about failing queries\<close>

lemma str_method_not_str:
  "\<not> is_str v \<Longrightarrow> str_method attr v = Inl (AttributeError (type_name v) attr)"
  by (cases v) auto

lemma find_loop_first_bad:
  assumes "find (\<lambda>d. \<not> is_str (content d)) docs = Some d"
  shows "find_loop ts docs acc = Inl (AttributeError (type_name (content d)) ''lower'')"
  using assms
proof (induction docs arbitrary: acc)
  case Nil
  then show ?case by simp
next
  case (Cons a docs)
  show ?case
  proof (cases "is_str (content a)")
    case True
    then obtain s where s: "content a = PyStr s" by (cases "content a") auto
    from True Cons.prems have "find (\<lambda>d. \<not> is_str (content d)) docs = Some d" by simp
    from Cons.IH [OF this] s show ?thesis by (simp add: Let_def)
  next
    case False
    with Cons.prems have "a = d" by simp
    with False show ?thesis by (simp add: str_method_not_str)
  qed
qed

lemma query_first_bad:
  assumes "knowledge_base st = knowledge_base init_state"
    and "find (\<lambda>d. \<not> is_str (content d)) (documents st) = Some d"
  shows "query st question ctx t =
           (\<lparr>success = False, answer = [], confidence = 0, sources = [], insights = [],
             retrieved_documents = None,
             error = Some (str_of_error (AttributeError (type_name (content d)) ''lower''))\<rparr>, st)"
proof -
  have item: "dict_item (knowledge_base init_state) ''networking_strategies'' = Inr networking_strategies"
    by (simp add: dict_item_def init_state_def)
  have "find_relevant_documents st question ctx =
          (Inl (AttributeError (type_name (content d)) ''lower''), st)"
    by (simp add: find_relevant_documents_def find_loop_first_bad [OF assms(2)])
  then have "query_body st question ctx t =
          (Inl (AttributeError (type_name (content d)) ''lower''), st)"
    by (simp add: query_body_def assms(1) item)
  then show ?thesis by (simp add: query_def)
qed

lemma find_bad_cases:
  "list_all (\<lambda>d. is_str (content d)) docs
   \<or> (\<exists>d. find (\<lambda>d. \<not> is_str (content d)) docs = Some d)"
  by (induction docs) auto

section \<open>The result of a query\<close>

text \<open>
  C3 (amended). \<open>query\<close> returns a result for every input. When its body
  raises, the result has \<open>success\<close> false, \<open>confidence\<close> 0.0, the empty string as
  \<open>answer\<close>, empty \<open>sources\<close> and \<open>insights\<close>, the message of the exception in
  \<open>error\<close>, and no \<open>retrieved_documents\<close>; when the body returns, the result has
  \<open>success\<close> true, \<open>confidence\<close> 0.85, a list of \<open>retrieved_documents\<close> and no
  \<open>error\<close>. With the initial knowledge table the query succeeds exactly when
  every stored content is text, and it fails with the \<open>AttributeError\<close> of the
  first stored content that is not.
\<close>

theorem query_result_shape:
  "(case fst (query_body st question ctx t) of
      Inr r \<Rightarrow>
        fst (query st question ctx t) = r \<and> success r \<and> confidence r = 0.85
        \<and> retrieved_documents r \<noteq> None \<and> error r = None
    | Inl e \<Rightarrow>
        fst (query st question ctx t) =
          \<lparr>success = False, answer = [], confidence = 0, sources = [], insights = [],
           retrieved_documents = None, error = Some (str_of_error e)\<rparr>)
   \<and> (knowledge_base st = knowledge_base init_state \<longrightarrow>
        (success (fst (query st question ctx t))
           \<longleftrightarrow> list_all (\<lambda>d. is_str (content d)) (documents st)))
   \<and> (\<forall>d. knowledge_base st = knowledge_base init_state
          \<and> find (\<lambda>d. \<not> is_str (content d)) (documents st) = Some d \<longrightarrow>
        error (fst (query st question ctx t))
          = Some ([CHR 0x27] @ type_name (content d) @ [CHR 0x27]
                  @ '' object has no attribute '' @ [CHR 0x27] @ ''lower'' @ [CHR 0x27]))"
proof -
  have shape: "case fst (query_body st question ctx t) of
      Inr r \<Rightarrow>
        fst (query st question ctx t) = r \<and> success r \<and> confidence r = 0.85
        \<and> retrieved_documents r \<noteq> None \<and> error r = None
    | Inl e \<Rightarrow>
        fst (query st question ctx t) =
          \<lparr>success = False, answer = [], confidence = 0, sources = [], insights = [],
           retrieved_documents = None, error = Some (str_of_error e)\<rparr>"
    by (auto simp: query_def query_body_def Let_def split: sum.splits prod.splits)
  have iff: "success (fst (query st question ctx t))
           \<longleftrightarrow> list_all (\<lambda>d. is_str (content d)) (documents st)"
    if kb: "knowledge_base st = knowledge_base init_state"
  proof (cases "list_all (\<lambda>d. is_str (content d)) (documents st)")
    case True
    with kb have "wf_state st" by (simp add: wf_state_def)
    from query_wf [OF this, of question ctx t] True show ?thesis by auto
  next
    case False
    with find_bad_cases [of "documents st"]
    obtain d where "find (\<lambda>d. \<not> is_str (content d)) (documents st) = Some d" by blast
    from query_first_bad [OF kb this, of question ctx t] False show ?thesis by simp
  qed
  have msg: "error (fst (query st question ctx t))
          = Some ([CHR 0x27] @ type_name (content d) @ [CHR 0x27]
                  @ '' object has no attribute '' @ [CHR 0x27] @ ''lower'' @ [CHR 0x27])"
    if "knowledge_base st = knowledge_base init_state"
      and "find (\<lambda>d. \<not> is_str (content d)) (documents st) = Some d" for d
    using query_first_bad [OF that, of question ctx t] by simp
  from shape iff msg show ?thesis by blast
qed

text \<open>
  A store holding one document whose content is \<open>None\<close>: the query fails with the
  message of the \<open>AttributeError\<close>.
\<close>

theorem query_result_shape_witness:
  "knowledge_base (snd (add_documents [PyDict [(''content'', PyNone)]] init_state))
     = knowledge_base init_state
   \<and> find (\<lambda>d. \<not> is_str (content d))
        (documents (snd (add_documents [PyDict [(''content'', PyNone)]] init_state)))
     = Some \<lparr>content = PyNone, meta = PyDict []\<rparr>
   \<and> \<not> success (fst (query (snd (add_documents [PyDict [(''content'', PyNone)]] init_state))
                     ''hello'' [] ''networking_strategy''))
   \<and> error (fst (query (snd (add_documents [PyDict [(''content'', PyNone)]] init_state))
                     ''hello'' [] ''networking_strategy''))
     = Some ([CHR 0x27] @ ''NoneType'' @ [CHR 0x27]
             @ '' object has no attribute '' @ [CHR 0x27] @ ''lower'' @ [CHR 0x27])"
proof -
  let ?st = "snd (add_documents [PyDict [(''content'', PyNone)]] init_state)"
  have st: "?st = init_state\<lparr>documents := [\<lparr>content = PyNone, meta = PyDict []\<rparr>]\<rparr>"
    by (simp add: add_documents_def dict_get_def init_state_def)
  have kb: "knowledge_base ?st = knowledge_base init_state"
    unfolding st by simp
  have bad: "find (\<lambda>d. \<not> is_str (content d)) (documents ?st)
               = Some \<lparr>content = PyNone, meta = PyDict []\<rparr>"
    unfolding st by simp
  have nall: "\<not> list_all (\<lambda>d. is_str (content d)) (documents ?st)"
    unfolding st by simp
  from query_result_shape [of ?st "''hello''" "[]" "''networking_strategy''"] kb bad nall
  have "\<not> success (fst (query ?st ''hello'' [] ''networking_strategy''))"
    and "error (fst (query ?st ''hello'' [] ''networking_strategy''))
          = Some ([CHR 0x27] @ type_name (content \<lparr>content = PyNone, meta = PyDict []\<rparr>) @ [CHR 0x27]
                  @ '' object has no attribute '' @ [CHR 0x27] @ ''lower'' @ [CHR 0x27])"
    by blast+
  with kb bad show ?thesis by simp
qed

text \<open>
  C3 as stated fails on that store: the answer of the failed query is the empty
  string, not a placeholder, and the result has no \<open>retrieved_documents\<close>.
\<close>

theorem query_failure_counterexample:
  "\<not> success (fst (query (snd (add_documents [PyDict [(''content'', PyNone)]] init_state))
                     ''hello'' [] ''networking_strategy''))
   \<and> answer (fst (query (snd (add_documents [PyDict [(''content'', PyNone)]] init_state))
                     ''hello'' [] ''networking_strategy'')) = []
   \<and> retrieved_documents (fst (query (snd (add_documents [PyDict [(''content'', PyNone)]] init_state))
                     ''hello'' [] ''networking_strategy'')) = None"
  by code_simp

section \<open>Facts about the answer templates\<close>











section \<open>Facts about successful and failing queries\<close>






section \<open>The retrieved documents\<close>




section \<open>Empty store, empty token set\<close>




section \<open>Unrecognized categories\<close>




section \<open>Industry insights\<close>




end
